theory Spec2Isabelle
  imports Complex_Main "HOL-Library.Multiset" "HOL-Library.Log_Nat"
begin

section \<open>Numbers\<close>

text \<open>
  A number of the source is an IEEE 754 double. A finite double is modelled by its value,
  a rational number; the two zeros are one value. The result of an addition is the exact
  sum rounded to the nearest double, ties to the even significand; a rounded value of
  binary exponent 1024 or more is an infinity.
\<close>

datatype number = Fin rat | PosInf | NegInf | NaN

text \<open>The binary exponent of a rational \<open>x \<noteq> 0\<close>: the \<open>e\<close> with
  \<open>2 powi e \<le> \<bar>x\<bar> < 2 powi (e + 1)\<close>.\<close>

definition exponent :: "rat \<Rightarrow> int" where
  "exponent x =
     (let d = bitlen (fst (quotient_of \<bar>x\<bar>)) - bitlen (snd (quotient_of \<bar>x\<bar>))
      in if 2 powi d \<le> \<bar>x\<bar> then d else d - 1)"

definition roundHalfEven :: "rat \<Rightarrow> int" where
  "roundHalfEven r =
     (let f = \<lfloor>r\<rfloor>; d = r - of_int f
      in if d < 1 / 2 then f else if 1 / 2 < d then f + 1 else if even f then f else f + 1)"

text \<open>Rounding to 53 significant bits; below the binary exponent -1022 the doubles are
  the multiples of \<open>2 powi (- 1074)\<close>.\<close>

definition roundDouble :: "rat \<Rightarrow> rat" where
  "roundDouble x =
     (if x = 0 then 0
      else let q = max (exponent x - 52) (- 1074)
           in of_int (roundHalfEven (x / 2 powi q)) * 2 powi q)"

definition toNumber :: "rat \<Rightarrow> number" where
  "toNumber x =
     (let y = roundDouble x
      in if 1024 \<le> exponent y then (if 0 < x then PosInf else NegInf) else Fin y)"

fun numAdd :: "number \<Rightarrow> number \<Rightarrow> number" where
  "numAdd (Fin a) (Fin b) = toNumber (a + b)"
| "numAdd NaN b = NaN"
| "numAdd a NaN = NaN"
| "numAdd PosInf NegInf = NaN"
| "numAdd NegInf PosInf = NaN"
| "numAdd PosInf b = PosInf"
| "numAdd a PosInf = PosInf"
| "numAdd NegInf b = NegInf"
| "numAdd a NegInf = NegInf"

fun numNeg :: "number \<Rightarrow> number" where
  "numNeg (Fin a) = Fin (- a)"
| "numNeg PosInf = NegInf"
| "numNeg NegInf = PosInf"
| "numNeg NaN = NaN"

text \<open>\<^verbatim>\<open>a - b\<close> is \<^verbatim>\<open>a + (-b)\<close>.\<close>

definition numSub :: "number \<Rightarrow> number \<Rightarrow> number" where
  "numSub a b = numAdd a (numNeg b)"

text \<open>\<^verbatim>\<open>v > 0\<close> and \<^verbatim>\<open>a <= b\<close>; both are false when an operand is \<^verbatim>\<open>NaN\<close>.\<close>

fun isPositive :: "number \<Rightarrow> bool" where
  "isPositive (Fin a) = (0 < a)"
| "isPositive PosInf = True"
| "isPositive NegInf = False"
| "isPositive NaN = False"

fun numLe :: "number \<Rightarrow> number \<Rightarrow> bool" where
  "numLe NaN b = False"
| "numLe a NaN = False"
| "numLe (Fin a) (Fin b) = (a \<le> b)"
| "numLe NegInf b = True"
| "numLe a PosInf = True"
| "numLe PosInf b = False"
| "numLe a NegInf = False"

section \<open>Data model of the games collection\<close>

text \<open>
  Identifiers (\<^verbatim>\<open>ObjectId\<close>s) are compared in the source through their string form
  (\<^verbatim>\<open>a.toString() === b.toString()\<close>, \<^verbatim>\<open>track.id === req.params.trackId\<close>), so an
  identifier is its string, in the form the database prints it.
\<close>

type_synonym objectId = string

text \<open>\<^verbatim>\<open>interface GameTrackScore { player: UserInstance; score: number; }\<close>. The score of
  an entry comes from the JSON body of a request, so it is a finite number.\<close>

record gameTrackScore =
  player :: objectId
  score :: rat

text \<open>
  \<^verbatim>\<open>interface GameTrack { _id, id, name, artists, scores, played }\<close>. The name of a
  track comes from the request body and may be missing; the document keeps the array
  paths of a track as arrays (a missing one is the empty array) and \<^verbatim>\<open>played\<close> as a
  boolean (default \<^verbatim>\<open>false\<close>).
\<close>

record gameTrack =
  track_id :: objectId
  track_name :: "string option"
  artists :: "string list"
  scores :: "gameTrackScore list"
  played :: bool

text \<open>\<^verbatim>\<open>interface GameAttributes { name?, description?, players, tracks }\<close>, with the
  document's \<^verbatim>\<open>id\<close>. The players path of a document in memory may be \<^verbatim>\<open>undefined\<close>
  (\<open>None\<close>).\<close>

record game =
  game_id :: objectId
  name :: "string option"
  description :: "string option"
  players :: "objectId list option"
  tracks :: "gameTrack list"

text \<open>\<^verbatim>\<open>interface GameScoreboard { gameId; board: { player, score, position? }[] }\<close>\<close>

record boardEntry =
  board_player :: objectId
  board_score :: number
  position :: "nat option"

record gameScoreboard =
  gameId :: objectId
  board :: "boardEntry list"

datatype exn = ValidationError "string list" | TypeError

section \<open>The scoreboard\<close>

text \<open>
  \<^verbatim>\<open>Array.prototype.sort(comparefn)\<close> is the sort of the engine, not of this program;
  it stands here as the stable sort of ECMAScript 2019: the elements are inserted from
  the right end of the array, and an element goes behind another one only when the
  comparator yields a positive number for the pair.
\<close>

fun sortInsert :: "('a \<Rightarrow> 'a \<Rightarrow> number) \<Rightarrow> 'a \<Rightarrow> 'a list \<Rightarrow> 'a list" where
  "sortInsert comparefn a [] = [a]"
| "sortInsert comparefn a (b # bs) =
     (if isPositive (comparefn a b) then b # sortInsert comparefn a bs else a # b # bs)"

definition arraySort :: "('a \<Rightarrow> 'a \<Rightarrow> number) \<Rightarrow> 'a list \<Rightarrow> 'a list" where
  "arraySort comparefn xs = foldr (sortInsert comparefn) xs []"

text \<open>
  The body of \<^verbatim>\<open>this.players.forEach(player => ...)\<close>: the local \<^verbatim>\<open>score\<close> starts at 0,
  runs through the tracks and, in each track, through the score entries of the player,
  with \<^verbatim>\<open>score += trackScore.score\<close> or \<^verbatim>\<open>score -= trackScore.score\<close>.
\<close>

definition trackScoreStep :: "gameTrack \<Rightarrow> gameTrackScore \<Rightarrow> number \<Rightarrow> number" where
  "trackScoreStep track trackScore acc =
     (if played track then numAdd acc (Fin (score trackScore))
      else numSub acc (Fin (score trackScore)))"

definition trackStep :: "objectId \<Rightarrow> gameTrack \<Rightarrow> number \<Rightarrow> number" where
  "trackStep p track acc =
     fold (trackScoreStep track) (filter (\<lambda>trackScore. player trackScore = p) (scores track)) acc"

definition playerScore :: "game \<Rightarrow> objectId \<Rightarrow> number" where
  "playerScore this p = fold (trackStep p) (tracks this) (Fin 0)"

definition pushPlayer :: "game \<Rightarrow> objectId \<Rightarrow> boardEntry list \<Rightarrow> boardEntry list" where
  "pushPlayer this p b =
     b @ [\<lparr>board_player = p, board_score = playerScore this p, position = None\<rparr>]"

text \<open>\<^verbatim>\<open>scoreboard.board.forEach((board, i) => board.position = i + 1)\<close>\<close>

fun setPositions :: "nat \<Rightarrow> boardEntry list \<Rightarrow> boardEntry list" where
  "setPositions i [] = []"
| "setPositions i (e # es) = e\<lparr>position := Some (i + 1)\<rparr> # setPositions (i + 1) es"

text \<open>\<^verbatim>\<open>(a, b) => b.score - a.score\<close>\<close>

definition compareScores :: "boardEntry \<Rightarrow> boardEntry \<Rightarrow> number" where
  "compareScores a b = numSub (board_score b) (board_score a)"

text \<open>\<^verbatim>\<open>this.players.forEach\<close> throws a \<^verbatim>\<open>TypeError\<close> when the players path is
  \<^verbatim>\<open>undefined\<close>.\<close>

definition getScoreboard :: "game \<Rightarrow> exn + gameScoreboard" where
  "getScoreboard this =
     (case players this of
        None \<Rightarrow> Inl TypeError
      | Some ps \<Rightarrow>
          (let pushed = fold (pushPlayer this) ps [];
               sorted = arraySort compareScores pushed
           in Inr \<lparr>gameId = game_id this, board = setPositions 0 sorted\<rparr>))"

text \<open>
  The aggregate as the specification words it. The signed scores of a player are \<open>+score\<close>
  for an entry of a played track and \<open>-score\<close> for an entry of a track that is not played,
  in the order of the tracks and, in a track, of its entries. \<open>aggregate\<close> is their sum
  over the tracks and, in each track, over its entries, in exact arithmetic;
  \<open>nestedTotal\<close> is the same sum of sums in the arithmetic of doubles; \<open>runningTotal\<close>
  adds them one after the other to 0 in the arithmetic of doubles.
\<close>

definition signedScores :: "objectId \<Rightarrow> gameTrack \<Rightarrow> rat list" where
  "signedScores p track =
     map (\<lambda>s. if played track then score s else - score s)
       (filter (\<lambda>s. player s = p) (scores track))"

definition signedScoresOf :: "game \<Rightarrow> objectId \<Rightarrow> rat list" where
  "signedScoresOf g p = concat (map (signedScores p) (tracks g))"

definition aggregate :: "game \<Rightarrow> objectId \<Rightarrow> rat" where
  "aggregate g p = (\<Sum>track\<leftarrow>tracks g. \<Sum>c\<leftarrow>signedScores p track. c)"

definition nestedTotal :: "game \<Rightarrow> objectId \<Rightarrow> number" where
  "nestedTotal g p =
     foldl numAdd (Fin 0)
       (map (\<lambda>track. foldl numAdd (Fin 0) (map Fin (signedScores p track))) (tracks g))"

definition runningTotal :: "game \<Rightarrow> objectId \<Rightarrow> number" where
  "runningTotal g p = foldl numAdd (Fin 0) (map Fin (signedScoresOf g p))"

definition isInteger :: "rat \<Rightarrow> bool" where
  "isInteger r = (of_int \<lfloor>r\<rfloor> = r)"

section \<open>Schema validation\<close>

text \<open>
  The validators of \<^verbatim>\<open>createGameSchema\<close>, \<^verbatim>\<open>createGameTrackSchema\<close> and
  \<^verbatim>\<open>createGameTrackScoreSchema\<close>. A validator yields the messages of the paths it
  rejects; a document is valid when there is no message.
\<close>

text \<open>\<^verbatim>\<open>(players) => players != null && players.length >= 1\<close>\<close>

definition playersValidator :: "objectId list option \<Rightarrow> bool" where
  "playersValidator ps = (case ps of None \<Rightarrow> False | Some l \<Rightarrow> 1 \<le> length l)"

text \<open>The players path has a custom validator and is not required: the validator is not
  run when the value of the path is \<^verbatim>\<open>undefined\<close>.\<close>

definition validatePlayers :: "objectId list option \<Rightarrow> string list" where
  "validatePlayers ps =
     (case ps of
        None \<Rightarrow> []
      | Some l \<Rightarrow> if playersValidator (Some l) then [] else [''Game players are required''])"

text \<open>\<^verbatim>\<open>(artists) => artists != null && artists.length >= 1\<close>\<close>

definition artistsValidator :: "string list option \<Rightarrow> bool" where
  "artistsValidator as = (case as of None \<Rightarrow> False | Some l \<Rightarrow> 1 \<le> length l)"

text \<open>Only in \<^verbatim>\<open>src/models/game-model.ts\<close>:
  \<^verbatim>\<open>(scores) => scores != null && scores.length >= 10\<close>\<close>

definition scoresValidator :: "gameTrackScore list option \<Rightarrow> bool" where
  "scoresValidator ss = (case ss of None \<Rightarrow> False | Some l \<Rightarrow> 10 \<le> length l)"

text \<open>\<^verbatim>\<open>required: [true, 'Game track name is required']\<close> on a string path: the value
  must be present and not the empty string.\<close>

definition nameRequired :: "string option \<Rightarrow> bool" where
  "nameRequired n = (case n of None \<Rightarrow> False | Some s \<Rightarrow> s \<noteq> [])"

text \<open>\<^verbatim>\<open>min: [0, ...], max: [10, ...]\<close> on \<^verbatim>\<open>score\<close>; the handler that builds a score
  entry supplies both required fields.\<close>

definition validateScore :: "gameTrackScore \<Rightarrow> string list" where
  "validateScore s =
     (if score s < 0 then [''Game track score must be between 0 and 10'']
      else if 10 < score s then [''Game track score must be between 0 and 10'']
      else [])"

definition validateTrack :: "gameTrack \<Rightarrow> string list" where
  "validateTrack t =
     (if nameRequired (track_name t) then [] else [''Game track name is required''])
     @ (if artistsValidator (Some (artists t)) then [] else [''Game track artists are required''])
     @ concat (map validateScore (scores t))"

text \<open>The track subschema of \<^verbatim>\<open>src/models/game-model.ts\<close>, with its validator on
  \<^verbatim>\<open>scores\<close>; an array that this validator rejects yields its message only.\<close>

definition validateTrackVariant :: "gameTrack \<Rightarrow> string list" where
  "validateTrackVariant t =
     (if nameRequired (track_name t) then [] else [''Game track name is required''])
     @ (if artistsValidator (Some (artists t)) then [] else [''Game track artists are required''])
     @ (if scoresValidator (Some (scores t)) then concat (map validateScore (scores t))
        else [''Game track scores must be >= 10''])"

definition validateGame :: "game \<Rightarrow> string list" where
  "validateGame g = validatePlayers (players g) @ concat (map validateTrack (tracks g))"

definition validateGameVariant :: "game \<Rightarrow> string list" where
  "validateGameVariant g =
     validatePlayers (players g) @ concat (map validateTrackVariant (tracks g))"

section \<open>The collection: lookup and save\<close>

text \<open>The collection is the list of its documents. A document read from the collection
  has its players path as an array: a document stored without the path is read with the
  empty array. \<^verbatim>\<open>findById\<close> yields the document with the identifier, or \<^verbatim>\<open>null\<close>.\<close>

definition hydrate :: "game \<Rightarrow> game" where
  "hydrate g = (case players g of None \<Rightarrow> g\<lparr>players := Some []\<rparr> | Some ps \<Rightarrow> g)"

definition findById :: "game list \<Rightarrow> objectId \<Rightarrow> game option" where
  "findById games i = map_option hydrate (find (\<lambda>g. game_id g = i) games)"

fun store :: "game \<Rightarrow> game list \<Rightarrow> game list" where
  "store g [] = [g]"
| "store g (h # hs) = (if game_id h = game_id g then g # hs else h # store g hs)"

text \<open>\<^verbatim>\<open>game.save()\<close> validates the document against the schema of its model and writes it,
  or throws the validation error and writes nothing.\<close>

definition save :: "(game \<Rightarrow> string list) \<Rightarrow> game list \<Rightarrow> game \<Rightarrow> exn + game list" where
  "save schema games g =
     (if schema g = [] then Inr (store g games) else Inl (ValidationError (schema g)))"


text \<open>\<^verbatim>\<open>game.tracks.find(track => track.id === req.params.trackId)\<close> yields the first such
  track or \<^verbatim>\<open>undefined\<close>; an assignment through the track found changes that track of the
  game.\<close>

definition findTrack :: "gameTrack list \<Rightarrow> objectId \<Rightarrow> gameTrack option" where
  "findTrack ts i = find (\<lambda>track. track_id track = i) ts"

fun updateTrack :: "objectId \<Rightarrow> (gameTrack \<Rightarrow> gameTrack) \<Rightarrow> gameTrack list \<Rightarrow> gameTrack list" where
  "updateTrack i f [] = []"
| "updateTrack i f (t # ts) = (if track_id t = i then f t # ts else t # updateTrack i f ts)"

section \<open>The handlers of the games controller\<close>

datatype body =
    IdBody objectId
  | ScoreboardBody gameScoreboard
  | FormatErrors "(string \<times> string) list"
  | FormatValidationErrors "string list"
  | FormatServerError

datatype response = Response (status: nat) (body: body)

text \<open>A handler takes the schema of the model, the collection and the request, and
  yields the response and the collection after the request; \<^verbatim>\<open>reqGameId\<close> and
  \<^verbatim>\<open>reqTrackId\<close> are \<^verbatim>\<open>req.params.gameId\<close> and \<^verbatim>\<open>req.params.trackId\<close>. \<^verbatim>\<open>authUser\<close> is
  \<^verbatim>\<open>res.locals.authUser\<close>, set by the authentication handlers in front.\<close>

definition notFound :: response where
  "notFound = Response 404 (FormatErrors [(''not_found'', ''Game not found'')])"

text \<open>The \<^verbatim>\<open>catch (err)\<close> block shared by the writing handlers.\<close>

definition catchBlock :: "game list \<Rightarrow> exn \<Rightarrow> response \<times> game list" where
  "catchBlock games err =
     (case err of
        ValidationError errs \<Rightarrow> (Response 400 (FormatValidationErrors errs), games)
      | TypeError \<Rightarrow> (Response 500 FormatServerError, games))"

text \<open>The \<^verbatim>\<open>catch\<close> block of the scoreboard handler answers 500 to every error.\<close>

definition scoreboardHandler :: "game list \<Rightarrow> objectId \<Rightarrow> response" where
  "scoreboardHandler games reqGameId =
     (case findById games reqGameId of
        None \<Rightarrow> notFound
      | Some game \<Rightarrow>
          (case getScoreboard game of
             Inl err \<Rightarrow> Response 500 FormatServerError
           | Inr scoreboard \<Rightarrow> Response 200 (ScoreboardBody scoreboard)))"


text \<open>\<^verbatim>\<open>game.players.push(res.locals.authUser)\<close> throws a \<^verbatim>\<open>TypeError\<close> when the
  players path is \<^verbatim>\<open>undefined\<close>.\<close>

definition joinHandler ::
  "(game \<Rightarrow> string list) \<Rightarrow> game list \<Rightarrow> objectId \<Rightarrow> objectId \<Rightarrow> response \<times> game list" where
  "joinHandler schema games authUser reqGameId =
     (case findById games reqGameId of
        None \<Rightarrow> (notFound, games)
      | Some game \<Rightarrow>
          (case players game of
             None \<Rightarrow> catchBlock games TypeError
           | Some ps \<Rightarrow>
               (let game' = game\<lparr>players := Some (ps @ [authUser])\<rparr>
                in case save schema games game' of
                     Inl err \<Rightarrow> catchBlock games err
                   | Inr games' \<Rightarrow> (Response 200 (IdBody (game_id game')), games'))))"


text \<open>\<^verbatim>\<open>track.scores.push({ player: res.locals.authUser, score })\<close>\<close>

definition pushScore :: "objectId \<Rightarrow> rat \<Rightarrow> gameTrack \<Rightarrow> gameTrack" where
  "pushScore authUser s track = track\<lparr>scores := scores track @ [\<lparr>player = authUser, score = s\<rparr>]\<rparr>"

text \<open>\<^verbatim>\<open>bodyScore\<close> is \<^verbatim>\<open>req.body.score\<close>: a number of the JSON body, or \<open>None\<close> when it is
  \<^verbatim>\<open>null\<close> or \<^verbatim>\<open>undefined\<close>.
  With no track found, \<^verbatim>\<open>track.scores\<close> throws a \<^verbatim>\<open>TypeError\<close>.\<close>

definition addScoreHandler ::
  "(game \<Rightarrow> string list) \<Rightarrow> game list \<Rightarrow> objectId \<Rightarrow> rat option \<Rightarrow> objectId \<Rightarrow> objectId
     \<Rightarrow> response \<times> game list" where
  "addScoreHandler schema games authUser bodyScore reqGameId reqTrackId =
     (case bodyScore of
        None \<Rightarrow> (Response 400 (FormatErrors [(''invalid_request'', ''Score is required'')]), games)
      | Some s \<Rightarrow>
          (case findById games reqGameId of
             None \<Rightarrow> (notFound, games)
           | Some game \<Rightarrow>
               (case findTrack (tracks game) reqTrackId of
                  None \<Rightarrow> catchBlock games TypeError
                | Some track \<Rightarrow>
                    (let game' = game\<lparr>tracks := updateTrack reqTrackId (pushScore authUser s) (tracks game)\<rparr>
                     in case save schema games game' of
                          Inl err \<Rightarrow> catchBlock games err
                        | Inr games' \<Rightarrow> (Response 200 (IdBody (game_id game')), games')))))"

text \<open>\<^verbatim>\<open>req.body.played || !track.played\<close>, for \<^verbatim>\<open>req.body.played\<close> a boolean or
  missing: the left operand is the result when it is \<^verbatim>\<open>true\<close>, the right operand when it
  is \<^verbatim>\<open>false\<close> or \<^verbatim>\<open>undefined\<close>.\<close>

definition playedOr :: "bool option \<Rightarrow> bool \<Rightarrow> bool" where
  "playedOr bodyPlayed other = (if bodyPlayed = Some True then True else other)"

definition setPlayed :: "bool option \<Rightarrow> gameTrack \<Rightarrow> gameTrack" where
  "setPlayed bodyPlayed track = track\<lparr>played := playedOr bodyPlayed (\<not> played track)\<rparr>"

definition playedHandler ::
  "(game \<Rightarrow> string list) \<Rightarrow> game list \<Rightarrow> bool option \<Rightarrow> objectId \<Rightarrow> objectId
     \<Rightarrow> response \<times> game list" where
  "playedHandler schema games bodyPlayed reqGameId reqTrackId =
     (case findById games reqGameId of
        None \<Rightarrow> (notFound, games)
      | Some game \<Rightarrow>
          (case findTrack (tracks game) reqTrackId of
             None \<Rightarrow> catchBlock games TypeError
           | Some track \<Rightarrow>
               (let game' = game\<lparr>tracks := updateTrack reqTrackId (setPlayed bodyPlayed) (tracks game)\<rparr>
                in case save schema games game' of
                     Inl err \<Rightarrow> catchBlock games err
                   | Inr games' \<Rightarrow> (Response 200 (IdBody (game_id game')), games'))))"



section \<open>A concrete collection\<close>

text \<open>The game of the end-to-end scenario: players A and B, one track that is not played
  yet, with a score of 7 by B and a score of 3 by A.\<close>

definition exTrack :: gameTrack where
  "exTrack = \<lparr>track_id = ''t1'', track_name = Some ''Song1'', artists = [''Band1''],
      scores = [\<lparr>player = ''B'', score = 7\<rparr>, \<lparr>player = ''A'', score = 3\<rparr>], played = False\<rparr>"

definition exGame :: game where
  "exGame = \<lparr>game_id = ''G'', name = Some ''Quiz Night'', description = None,
      players = Some [''A'', ''B''], tracks = [exTrack]\<rparr>"

text \<open>A game with one player and two played tracks; the scores of the player are the
  doubles that print as 0.1 in the first track and as 0.2 and 0.3 in the second.\<close>

definition exFractions :: game where
  "exFractions = \<lparr>game_id = ''F'', name = None, description = None, players = Some [''A''],
      tracks =
        [\<lparr>track_id = ''t1'', track_name = Some ''Song1'', artists = [''Band1''],
            scores = [\<lparr>player = ''A'', score = 3602879701896397 / 36028797018963968\<rparr>],
            played = True\<rparr>,
         \<lparr>track_id = ''t2'', track_name = Some ''Song2'', artists = [''Band2''],
            scores = [\<lparr>player = ''A'', score = 3602879701896397 / 18014398509481984\<rparr>,
                      \<lparr>player = ''A'', score = 5404319552844595 / 18014398509481984\<rparr>],
            played = True\<rparr>]\<rparr>"

section \<open>The doubles as a grid\<close>

text \<open>Every finite double is an integer multiple of \<open>2 powi (- 1074)\<close>, the least
  positive double. The numbers
  that the scoreboard adds up stay among these multiples and the two infinities.\<close>

definition gridUnit :: rat where
  "gridUnit = 2 powi (- 1074)"

definition onGrid :: "rat \<Rightarrow> bool" where
  "onGrid x = (x / gridUnit \<in> \<int>)"

fun gridNumber :: "number \<Rightarrow> bool" where
  "gridNumber (Fin a) = onGrid a"
| "gridNumber PosInf = True"
| "gridNumber NegInf = True"
| "gridNumber NaN = False"

section \<open>Properties of the numbers\<close>

lemma quotient_of_abs_pos:
  assumes "x \<noteq> 0"
  shows "0 < fst (quotient_of \<bar>x\<bar>)" and "0 < snd (quotient_of \<bar>x\<bar>)"
    and "\<bar>x\<bar> = of_int (fst (quotient_of \<bar>x\<bar>)) / of_int (snd (quotient_of \<bar>x\<bar>))"
proof -
  obtain p q where pq: "quotient_of \<bar>x\<bar> = (p, q)"
    by (cases "quotient_of \<bar>x\<bar>")
  then have q: "0 < q"
    by (rule quotient_of_denom_pos)
  have eq: "\<bar>x\<bar> = of_int p / of_int q"
    using pq by (rule quotient_of_div)
  have "0 < \<bar>x\<bar>"
    using assms by simp
  with eq q have "0 < p"
    by (simp add: zero_less_divide_iff)
  with pq q eq show "0 < fst (quotient_of \<bar>x\<bar>)" and "0 < snd (quotient_of \<bar>x\<bar>)"
    and "\<bar>x\<bar> = of_int (fst (quotient_of \<bar>x\<bar>)) / of_int (snd (quotient_of \<bar>x\<bar>))"
    by simp_all
qed

lemma powi_bitlen_le:
  assumes "0 < p"
  shows "(2::rat) powi (bitlen p - 1) \<le> of_int p" and "of_int p < (2::rat) powi (bitlen p)"
proof -
  have "bitlen p \<noteq> 0"
    using assms by (simp add: bitlen_eq_zero_iff)
  then have b: "1 \<le> bitlen p"
    using bitlen_nonneg [of p] by simp
  have lo: "2 ^ nat (bitlen p - 1) \<le> p" and hi: "p < 2 ^ nat (bitlen p)"
    using bitlen_bounds [OF assms] by simp_all
  have "(2::rat) powi (bitlen p - 1) = of_int (2 ^ nat (bitlen p - 1))"
    using b by (simp add: power_int_def)
  also have "\<dots> \<le> of_int p"
    using lo by (simp only: of_int_le_iff)
  finally show "(2::rat) powi (bitlen p - 1) \<le> of_int p" .
  have "(of_int p :: rat) < of_int (2 ^ nat (bitlen p))"
    using hi by (simp only: of_int_less_iff)
  also have "\<dots> = 2 powi (bitlen p)"
    using b by (simp add: power_int_def)
  finally show "of_int p < (2::rat) powi (bitlen p)" .
qed

lemma exponent_le:
  assumes "x \<noteq> 0"
  shows "2 powi (exponent x) \<le> \<bar>x\<bar>"
proof -
  let ?p = "fst (quotient_of \<bar>x\<bar>)" and ?q = "snd (quotient_of \<bar>x\<bar>)"
  let ?d = "bitlen ?p - bitlen ?q"
  have p: "0 < ?p" and q: "0 < ?q" and eq: "\<bar>x\<bar> = of_int ?p / of_int ?q"
    using quotient_of_abs_pos [OF assms] by simp_all
  show ?thesis
  proof (cases "2 powi ?d \<le> \<bar>x\<bar>")
    case True
    then show ?thesis
      by (simp add: exponent_def Let_def)
  next
    case False
    have "(2::rat) powi (?d - 1) = 2 powi (bitlen ?p - 1) / 2 powi (bitlen ?q)"
      by (simp add: power_int_diff)
    also have "\<dots> \<le> of_int ?p / 2 powi (bitlen ?q)"
      using powi_bitlen_le(1) [OF p] by (simp add: divide_right_mono)
    also have "\<dots> \<le> of_int ?p / of_int ?q"
      using powi_bitlen_le(2) [OF q] p q by (simp add: frac_le)
    finally have "(2::rat) powi (?d - 1) \<le> \<bar>x\<bar>"
      using eq by simp
    with False show ?thesis
      by (simp add: exponent_def Let_def)
  qed
qed

lemma exponent_less:
  assumes "x \<noteq> 0"
  shows "\<bar>x\<bar> < 2 powi (exponent x + 1)"
proof -
  let ?p = "fst (quotient_of \<bar>x\<bar>)" and ?q = "snd (quotient_of \<bar>x\<bar>)"
  let ?d = "bitlen ?p - bitlen ?q"
  have p: "0 < ?p" and q: "0 < ?q" and eq: "\<bar>x\<bar> = of_int ?p / of_int ?q"
    using quotient_of_abs_pos [OF assms] by simp_all
  show ?thesis
  proof (cases "2 powi ?d \<le> \<bar>x\<bar>")
    case True
    have "of_int ?p / of_int ?q < (2::rat) powi (bitlen ?p) / of_int ?q"
      using powi_bitlen_le(2) [OF p] q by (simp add: divide_strict_right_mono)
    also have "\<dots> \<le> 2 powi (bitlen ?p) / 2 powi (bitlen ?q - 1)"
      using powi_bitlen_le(1) [OF q] by (simp add: frac_le)
    also have "\<dots> = 2 powi (bitlen ?p - (bitlen ?q - 1))"
      by (subst power_int_diff) simp_all
    also have "bitlen ?p - (bitlen ?q - 1) = ?d + 1"
      by simp
    finally have "\<bar>x\<bar> < 2 powi (?d + 1)"
      using eq by simp
    with True show ?thesis
      by (simp add: exponent_def Let_def)
  next
    case False
    then show ?thesis
      by (simp add: exponent_def Let_def)
  qed
qed

lemma roundHalfEven_of_int: "roundHalfEven (of_int k) = k"
  by (simp add: roundHalfEven_def)

lemma roundHalfEven_ge: "1 \<le> r \<Longrightarrow> 1 \<le> roundHalfEven r"
proof -
  assume "1 \<le> r"
  then have "1 \<le> \<lfloor>r\<rfloor>"
    by (simp add: le_floor_iff)
  then show ?thesis
    by (simp add: roundHalfEven_def Let_def)
qed

lemma roundHalfEven_neg: "r < 0 \<Longrightarrow> roundHalfEven r \<le> 0"
proof -
  assume "r < 0"
  then have "\<lfloor>r\<rfloor> < 0"
    by (simp add: floor_less_iff)
  then show ?thesis
    by (simp add: roundHalfEven_def Let_def)
qed

lemma gridUnit_pos: "0 < gridUnit"
  unfolding gridUnit_def by (rule zero_less_power_int) simp

lemma powi_add_rat: "(2::rat) powi (a + b) = 2 powi a * 2 powi b"
  by (simp add: power_int_add)

lemma powi_gridUnit: "(2::rat) powi q = 2 powi (q + 1074) * gridUnit"
proof -
  have e: "q + 1074 + - 1074 = q"
    by simp
  show ?thesis
    unfolding gridUnit_def using powi_add_rat [of "q + 1074" "- 1074"] by (simp only: e)
qed

lemma powi_gridUnit_int:
  assumes "- 1074 \<le> q"
  shows "(2::rat) powi q = of_int (2 ^ nat (q + 1074)) * gridUnit"
proof -
  have "(2::rat) powi (q + 1074) = of_int (2 ^ nat (q + 1074))"
    using assms by (simp add: power_int_def)
  then show ?thesis
    using powi_gridUnit [of q] by simp
qed

lemma onGrid_0: "onGrid 0"
  by (simp add: onGrid_def)

lemma onGrid_diff: "onGrid a \<Longrightarrow> onGrid b \<Longrightarrow> onGrid (a - b)"
  by (simp add: onGrid_def diff_divide_distrib)

lemma onGrid_roundDouble: "onGrid (roundDouble x)"
proof (cases "x = 0")
  case True
  then show ?thesis
    by (simp add: roundDouble_def onGrid_0)
next
  case False
  define q where "q = max (exponent x - 52) (- 1074)"
  define m where "m = roundHalfEven (x / 2 powi q)"
  have q: "- 1074 \<le> q"
    by (simp add: q_def)
  have "roundDouble x = of_int m * 2 powi q"
    using False by (simp add: roundDouble_def Let_def q_def m_def)
  also have "\<dots> = of_int (m * 2 ^ nat (q + 1074)) * gridUnit"
    by (simp add: powi_gridUnit_int [OF q])
  finally have "roundDouble x / gridUnit = of_int (m * 2 ^ nat (q + 1074))"
    using gridUnit_pos by simp
  then show ?thesis
    by (simp add: onGrid_def)
qed

lemma onGrid_pos_ge:
  assumes "onGrid x" and "0 < x"
  shows "gridUnit \<le> x"
proof -
  from assms(1) obtain k :: int where k: "x / gridUnit = of_int k"
    by (auto simp: onGrid_def elim: Ints_cases)
  have "0 < x / gridUnit"
    using assms(2) gridUnit_pos by simp
  with k have "0 < k"
    by simp
  then have "(1::rat) \<le> of_int k"
    by simp
  with k have "1 \<le> x / gridUnit"
    by simp
  then show ?thesis
    using gridUnit_pos by (simp add: le_divide_eq)
qed

lemma roundDouble_pos:
  assumes "onGrid x" and "0 < x"
  shows "0 < roundDouble x"
proof -
  define q where "q = max (exponent x - 52) (- 1074)"
  have x: "x \<noteq> 0"
    using assms(2) by simp
  have "2 powi q \<le> x"
  proof (cases "exponent x - 52 \<le> - 1074")
    case True
    then have "q = - 1074"
      by (simp add: q_def)
    then have "2 powi q = gridUnit"
      by (simp only: gridUnit_def)
    then show ?thesis
      using onGrid_pos_ge [OF assms] by simp
  next
    case False
    then have "q = exponent x - 52"
      by (simp add: q_def)
    moreover have "2 powi (exponent x - 52) \<le> (2::rat) powi (exponent x)"
      by (rule power_int_increasing) simp_all
    moreover have "2 powi (exponent x) \<le> x"
      using exponent_le [OF x] assms(2) by simp
    ultimately show ?thesis
      by simp
  qed
  then have "1 \<le> x / 2 powi q"
    by (simp add: le_divide_eq)
  then have "1 \<le> roundHalfEven (x / 2 powi q)"
    by (rule roundHalfEven_ge)
  then have "0 < (of_int (roundHalfEven (x / 2 powi q)) :: rat) * 2 powi q"
    by simp
  then show ?thesis
    using x by (simp add: roundDouble_def Let_def q_def)
qed

lemma roundDouble_nonpos:
  assumes "x \<le> 0"
  shows "roundDouble x \<le> 0"
proof (cases "x = 0")
  case True
  then show ?thesis
    by (simp add: roundDouble_def)
next
  case False
  define q where "q = max (exponent x - 52) (- 1074)"
  from False assms have "x / 2 powi q < 0"
    by (simp add: divide_less_0_iff)
  then have "roundHalfEven (x / 2 powi q) \<le> 0"
    by (rule roundHalfEven_neg)
  then have "(of_int (roundHalfEven (x / 2 powi q)) :: rat) * 2 powi q \<le> 0"
    by (simp add: mult_le_0_iff)
  then show ?thesis
    using False by (simp add: roundDouble_def Let_def q_def)
qed

lemma isPositive_toNumber: "onGrid d \<Longrightarrow> isPositive (toNumber d) = (0 < d)"
  using roundDouble_pos [of d] roundDouble_nonpos [of d]
  by (auto simp: toNumber_def Let_def)

lemma gridNumber_toNumber: "gridNumber (toNumber x)"
  by (simp add: toNumber_def Let_def onGrid_roundDouble)

lemma gridNumber_numAdd_Fin: "gridNumber acc \<Longrightarrow> gridNumber (numAdd acc (Fin s))"
  by (cases acc) (simp_all add: gridNumber_toNumber)

lemma gridNumber_numSub_Fin: "gridNumber acc \<Longrightarrow> gridNumber (numSub acc (Fin s))"
  by (cases acc) (simp_all add: numSub_def gridNumber_toNumber)

lemma isPositive_numSub:
  "gridNumber a \<Longrightarrow> gridNumber b \<Longrightarrow> isPositive (numSub b a) = (\<not> numLe b a)"
  by (cases a; cases b) (auto simp: numSub_def isPositive_toNumber onGrid_diff)

lemma numLe_total: "gridNumber a \<Longrightarrow> gridNumber b \<Longrightarrow> numLe a b \<or> numLe b a"
  by (cases a; cases b) auto

lemma numLe_trans: "numLe a b \<Longrightarrow> numLe b c \<Longrightarrow> numLe a c"
  by (cases a; cases b; cases c) auto

lemma powi_less_imp:
  assumes "(2::rat) powi a < 2 powi b"
  shows "a < b"
proof (rule ccontr)
  assume "\<not> a < b"
  then have "b \<le> a"
    by simp
  then have "(2::rat) powi b \<le> 2 powi a"
    by (rule power_int_increasing) simp
  with assms show False
    by simp
qed

lemma roundDouble_of_int:
  assumes "\<bar>n\<bar> < 2 ^ 53"
  shows "roundDouble (of_int n) = of_int n"
proof (cases "n = 0")
  case True
  then show ?thesis
    by (simp add: roundDouble_def)
next
  case False
  define e where "e = exponent (of_int n)"
  define q where "q = max (e - 52) (- 1074)"
  have n: "(of_int n :: rat) \<noteq> 0"
    using False by simp
  have "(2::rat) powi e \<le> \<bar>of_int n\<bar>"
    unfolding e_def using n by (rule exponent_le)
  also have "\<dots> < 2 powi 53"
    using assms by (simp flip: of_int_abs)
  finally have "e < 53"
    by (rule powi_less_imp)
  then have q: "q \<le> 0"
    by (simp add: q_def)
  have "(2::rat) powi q = 1 / 2 ^ nat (- q)"
    using q by (simp add: power_int_def inverse_eq_divide power_divide)
  then have "of_int n / (2::rat) powi q = of_int (n * 2 ^ nat (- q))"
    by simp
  then have "roundHalfEven (of_int n / 2 powi q) = n * 2 ^ nat (- q)"
    by (simp only: roundHalfEven_of_int)
  then have "of_int (roundHalfEven (of_int n / 2 powi q)) * (2::rat) powi q = of_int n"
    using \<open>(2::rat) powi q = 1 / 2 ^ nat (- q)\<close> by simp
  then show ?thesis
    using n by (simp add: roundDouble_def Let_def q_def e_def)
qed

lemma exponent_of_int_less:
  assumes "\<bar>n\<bar> < 2 ^ 53"
  shows "exponent (of_int n) < 1024"
proof (cases "n = 0")
  case True
  have "exponent 0 = - 2"
    by code_simp
  with True show ?thesis
    by simp
next
  case False
  then have n: "(of_int n :: rat) \<noteq> 0"
    by simp
  have "(2::rat) powi (exponent (of_int n)) \<le> \<bar>of_int n\<bar>"
    using n by (rule exponent_le)
  also have "\<dots> < 2 powi 53"
    using assms by (simp flip: of_int_abs)
  finally have "exponent (of_int n) < 53"
    by (rule powi_less_imp)
  then show ?thesis
    by simp
qed

lemma toNumber_of_int: "\<bar>n\<bar> < 2 ^ 53 \<Longrightarrow> toNumber (of_int n) = Fin (of_int n)"
  using exponent_of_int_less [of n]
  by (simp add: toNumber_def Let_def roundDouble_of_int)

section \<open>Properties of the scoreboard\<close>

lemma fold_trackScoreStep:
  "fold (trackScoreStep track) ss acc =
     foldl numAdd acc (map (\<lambda>s. Fin (if played track then score s else - score s)) ss)"
  by (induction ss arbitrary: acc) (simp_all add: trackScoreStep_def numSub_def)

lemma trackStep_foldl: "trackStep p track acc = foldl numAdd acc (map Fin (signedScores p track))"
  by (simp add: trackStep_def signedScores_def fold_trackScoreStep comp_def)

lemma fold_trackStep:
  "fold (trackStep p) ts acc = foldl numAdd acc (map Fin (concat (map (signedScores p) ts)))"
  by (induction ts arbitrary: acc) (simp_all add: trackStep_foldl)

lemma playerScore_runningTotal: "playerScore g p = runningTotal g p"
  by (simp add: playerScore_def runningTotal_def signedScoresOf_def fold_trackStep)

lemma gridNumber_foldl:
  "gridNumber acc \<Longrightarrow> gridNumber (foldl numAdd acc (map Fin cs))"
  by (induction cs arbitrary: acc) (simp_all add: gridNumber_numAdd_Fin)

lemma gridNumber_runningTotal: "gridNumber (runningTotal g p)"
  by (simp add: runningTotal_def gridNumber_foldl onGrid_0)

lemma fold_pushPlayer:
  "fold (pushPlayer g) ps b =
     b @ map (\<lambda>p. \<lparr>board_player = p, board_score = playerScore g p, position = None\<rparr>) ps"
  by (induction ps arbitrary: b) (simp_all add: pushPlayer_def)

lemma mset_sortInsert: "mset (sortInsert c a bs) = add_mset a (mset bs)"
  by (induction bs) simp_all

lemma mset_arraySort: "mset (arraySort c xs) = mset xs"
  by (induction xs) (simp_all add: arraySort_def mset_sortInsert)

lemma set_arraySort: "set (arraySort c xs) = set xs"
  using mset_arraySort [of c xs] by (metis set_mset_mset)

lemma length_arraySort: "length (arraySort c xs) = length xs"
  using mset_arraySort [of c xs] by (metis size_mset)

lemma sorted_sortInsert:
  assumes "sorted_wrt (\<lambda>a b. numLe (board_score b) (board_score a)) bs"
    and "gridNumber (board_score a)"
    and "\<forall>b\<in>set bs. gridNumber (board_score b)"
  shows "sorted_wrt (\<lambda>a b. numLe (board_score b) (board_score a)) (sortInsert compareScores a bs)"
  using assms
proof (induction bs)
  case Nil
  then show ?case by simp
next
  case (Cons b bs)
  show ?case
  proof (cases "isPositive (compareScores a b)")
    case True
    with Cons.prems have "\<not> numLe (board_score b) (board_score a)"
      by (simp add: compareScores_def isPositive_numSub)
    with Cons.prems have ba: "numLe (board_score a) (board_score b)"
      using numLe_total [of "board_score a" "board_score b"] by auto
    have "sorted_wrt (\<lambda>a b. numLe (board_score b) (board_score a)) (sortInsert compareScores a bs)"
      using Cons by simp
    moreover have "\<forall>x\<in>set (sortInsert compareScores a bs). numLe (board_score x) (board_score b)"
      using Cons.prems(1) ba
      by (metis (no_types, lifting) insert_iff mset_sortInsert set_mset_add_mset_insert
          set_mset_mset sorted_wrt.simps(2))
    ultimately show ?thesis
      using True by simp
  next
    case False
    with Cons.prems have ab: "numLe (board_score b) (board_score a)"
      by (simp add: compareScores_def isPositive_numSub)
    have "\<forall>x\<in>set bs. numLe (board_score x) (board_score a)"
      using Cons.prems(1) ab numLe_trans by auto
    with Cons.prems(1) ab False show ?thesis
      by simp
  qed
qed

lemma sorted_arraySort:
  "\<forall>x\<in>set xs. gridNumber (board_score x) \<Longrightarrow>
     sorted_wrt (\<lambda>a b. numLe (board_score b) (board_score a)) (arraySort compareScores xs)"
proof (induction xs)
  case Nil
  then show ?case by (simp add: arraySort_def)
next
  case (Cons x xs)
  have "sorted_wrt (\<lambda>a b. numLe (board_score b) (board_score a))
      (sortInsert compareScores x (arraySort compareScores xs))"
    using Cons by (intro sorted_sortInsert) (simp_all add: set_arraySort)
  then show ?case
    by (simp add: arraySort_def)
qed

lemma length_setPositions: "length (setPositions i es) = length es"
  by (induction es arbitrary: i) simp_all

lemma map_score_setPositions:
  "map board_score (setPositions i es) = map board_score es"
  by (induction es arbitrary: i) simp_all

lemma map_position_setPositions:
  "map position (setPositions i es) = map (\<lambda>k. Some (k + 1)) [i..<i + length es]"
  by (induction es arbitrary: i) (simp_all add: upt_rec)

lemma map_entries_setPositions:
  "map (\<lambda>e. (board_player e, board_score e)) (setPositions i es) =
     map (\<lambda>e. (board_player e, board_score e)) es"
  by (induction es arbitrary: i) simp_all

lemma sorted_wrt_score_setPositions:
  "sorted_wrt (\<lambda>a b. numLe (board_score b) (board_score a)) (setPositions i es) =
     sorted_wrt (\<lambda>a b. numLe (board_score b) (board_score a)) es"
proof -
  have eq: "sorted_wrt (\<lambda>a b. numLe (board_score b) (board_score a)) xs =
      sorted_wrt (\<lambda>x y. numLe y x) (map board_score xs)" for xs
    by (simp add: sorted_wrt_map)
  show ?thesis
    unfolding eq map_score_setPositions ..
qed

lemma getScoreboard_Some:
  "players g = Some ps \<Longrightarrow>
     getScoreboard g = Inr \<lparr>gameId = game_id g,
       board = setPositions 0 (arraySort compareScores
         (map (\<lambda>p. \<lparr>board_player = p, board_score = runningTotal g p, position = None\<rparr>) ps))\<rparr>"
  by (simp add: getScoreboard_def fold_pushPlayer playerScore_runningTotal)

lemma isInteger_iff: "isInteger r \<longleftrightarrow> (\<exists>n. r = of_int n)"
  by (auto simp: isInteger_def)

lemma foldl_numAdd_of_int:
  "\<bar>a\<bar> + (\<Sum>k\<leftarrow>ks. \<bar>k\<bar>) < 2 ^ 53 \<Longrightarrow>
     foldl numAdd (Fin (of_int a)) (map (\<lambda>k. Fin (of_int k)) ks) = Fin (of_int (a + sum_list ks))"
proof (induction ks arbitrary: a)
  case Nil
  then show ?case by simp
next
  case (Cons k ks)
  have s: "0 \<le> (\<Sum>k\<leftarrow>ks. \<bar>k\<bar>)"
    by (rule sum_list_nonneg) auto
  have "\<bar>a + k\<bar> \<le> \<bar>a\<bar> + \<bar>k\<bar>"
    by simp
  with Cons.prems s have b: "\<bar>a + k\<bar> < 2 ^ 53" and c: "\<bar>a + k\<bar> + (\<Sum>k\<leftarrow>ks. \<bar>k\<bar>) < 2 ^ 53"
    by simp_all
  have "numAdd (Fin (of_int a)) (Fin (of_int k)) = Fin (of_int (a + k))"
    using toNumber_of_int [OF b] by simp
  then show ?case
    using Cons.IH [OF c] by (simp add: add.assoc)
qed

lemma sum_list_concat_map: "sum_list (concat xss) = (\<Sum>xs\<leftarrow>xss. sum_list xs)"
  by (induction xss) simp_all

lemma runningTotal_exact:
  assumes "list_all isInteger (signedScoresOf g p)"
    and "(\<Sum>c\<leftarrow>signedScoresOf g p. \<bar>c\<bar>) < 2 ^ 53"
  shows "runningTotal g p = Fin (aggregate g p)"
proof -
  define ks where "ks = map (\<lambda>c. \<lfloor>c\<rfloor>) (signedScoresOf g p)"
  have cs: "signedScoresOf g p = map of_int ks"
    using assms(1) by (simp add: ks_def list_all_iff isInteger_def map_idI)
  have "map abs (map of_int ks) = map (of_int :: int \<Rightarrow> rat) (map abs ks)"
    by simp
  then have "(\<Sum>c\<leftarrow>signedScoresOf g p. \<bar>c\<bar>) = of_int (\<Sum>k\<leftarrow>ks. \<bar>k\<bar>)"
    by (simp only: cs sum_list_of_int)
  with assms(2) have "\<bar>0\<bar> + (\<Sum>k\<leftarrow>ks. \<bar>k\<bar>) < 2 ^ 53"
    by simp
  then have "foldl numAdd (Fin (of_int 0)) (map (\<lambda>k. Fin (of_int k)) ks) =
      Fin (of_int (0 + sum_list ks))"
    by (rule foldl_numAdd_of_int)
  moreover have "aggregate g p = sum_list (signedScoresOf g p)"
    by (simp add: aggregate_def signedScoresOf_def sum_list_concat_map comp_def)
  ultimately show ?thesis
    by (simp add: runningTotal_def cs comp_def sum_list_of_int)
qed

text \<open>
  Claim C1, amended. For every game with a players array, \<open>getScoreboard\<close> returns the
  identifier of the game and a board with one entry per element of the players array; the
  entry of player \<open>p\<close> carries the running total of \<open>p\<close>: the signed scores of \<open>p\<close>
  (\<open>+score\<close> in a played track, \<open>-score\<close> in a track that is not played) added one after
  the other to 0, in the order of the tracks and of the entries, each addition rounded to
  a double. The running total is the exact sum of the signed scores when they are integers
  whose absolute values add up to less than \<open>2 ^ 53\<close>. The entries are in descending
  order of their score, and the position of each entry is its 1-based index in that
  order.
\<close>

theorem getScoreboard_correct:
  assumes "players g = Some ps"
  shows "\<exists>sb. getScoreboard g = Inr sb \<and>
     gameId sb = game_id g \<and>
     length (board sb) = length ps \<and>
     mset (map (\<lambda>e. (board_player e, board_score e)) (board sb)) =
       mset (map (\<lambda>p. (p, runningTotal g p)) ps) \<and>
     sorted_wrt (\<lambda>a b. numLe (board_score b) (board_score a)) (board sb) \<and>
     map position (board sb) = map (\<lambda>i. Some (i + 1)) [0..<length ps] \<and>
     (list_all isInteger (signedScoresOf g p) \<and> (\<Sum>c\<leftarrow>signedScoresOf g p. \<bar>c\<bar>) < 2 ^ 53 \<longrightarrow>
        runningTotal g p = Fin (aggregate g p))"
proof -
  let ?es = "map (\<lambda>p. \<lparr>board_player = p, board_score = runningTotal g p, position = None\<rparr>) ps"
  let ?b = "setPositions 0 (arraySort compareScores ?es)"
  let ?sb = "\<lparr>gameId = game_id g, board = ?b\<rparr>"
  have 0: "getScoreboard g = Inr ?sb"
    using assms by (rule getScoreboard_Some)
  have 2: "length ?b = length ps"
    by (simp add: length_setPositions length_arraySort)
  have "mset (map (\<lambda>e. (board_player e, board_score e)) (arraySort compareScores ?es)) =
        mset (map (\<lambda>e. (board_player e, board_score e)) ?es)"
    using mset_arraySort [of compareScores ?es] by (metis mset_map)
  also have "map (\<lambda>e. (board_player e, board_score e)) ?es = map (\<lambda>p. (p, runningTotal g p)) ps"
    by simp
  finally have 3: "mset (map (\<lambda>e. (board_player e, board_score e)) ?b) =
     mset (map (\<lambda>p. (p, runningTotal g p)) ps)"
    by (simp add: map_entries_setPositions)
  have "\<forall>e\<in>set ?es. gridNumber (board_score e)"
    by (simp add: gridNumber_runningTotal)
  then have 4: "sorted_wrt (\<lambda>a b. numLe (board_score b) (board_score a)) ?b"
    by (simp only: sorted_wrt_score_setPositions sorted_arraySort)
  have 5: "map position ?b = map (\<lambda>i. Some (i + 1)) [0..<length ps]"
    by (simp add: map_position_setPositions length_arraySort)
  have 6: "list_all isInteger (signedScoresOf g p) \<and> (\<Sum>c\<leftarrow>signedScoresOf g p. \<bar>c\<bar>) < 2 ^ 53 \<longrightarrow>
        runningTotal g p = Fin (aggregate g p)"
    by (simp add: runningTotal_exact)
  show ?thesis
    using 0 2 3 4 5 6 by (intro exI [of _ ?sb]) simp
qed

lemma ex_players: "players exGame = Some [''A'', ''B'']"
  by (simp add: exGame_def)

lemma ex_signedScores_A: "signedScoresOf exGame ''A'' = [- 3]"
  by (simp add: signedScoresOf_def signedScores_def exGame_def exTrack_def)

lemma ex_aggregate_A: "aggregate exGame ''A'' = - 3"
  by (simp add: aggregate_def signedScores_def exGame_def exTrack_def)

lemma ex_getScoreboard:
  "getScoreboard exGame = Inr \<lparr>gameId = ''G'', board =
     [\<lparr>board_player = ''A'', board_score = Fin (- 3), position = Some 1\<rparr>,
      \<lparr>board_player = ''B'', board_score = Fin (- 7), position = Some 2\<rparr>]\<rparr>"
  by code_simp

lemma exFractions_getScoreboard:
  "getScoreboard exFractions = Inr \<lparr>gameId = ''F'', board =
     [\<lparr>board_player = ''A'', board_score = Fin (5404319552844596 / 9007199254740992),
        position = Some 1\<rparr>]\<rparr>"
  by code_simp

lemma exFractions_aggregate:
  "aggregate exFractions ''A'' = 21617278211378381 / 36028797018963968"
  by code_simp

lemma exFractions_nestedTotal:
  "nestedTotal exFractions ''A'' = Fin (5404319552844595 / 9007199254740992)"
  by code_simp

text \<open>
  The hypotheses of the amended C1 hold for the concrete game, whose scores are integers:
  the board is A with -3 and B with -7, and the running total of A is the exact sum.
\<close>

theorem getScoreboard_correct_witness:
  "players exGame = Some [''A'', ''B''] \<and>
   list_all isInteger (signedScoresOf exGame ''A'') \<and>
   (\<Sum>c\<leftarrow>signedScoresOf exGame ''A''. \<bar>c\<bar>) < 2 ^ 53 \<and>
   getScoreboard exGame = Inr \<lparr>gameId = ''G'', board =
     [\<lparr>board_player = ''A'', board_score = Fin (- 3), position = Some 1\<rparr>,
      \<lparr>board_player = ''B'', board_score = Fin (- 7), position = Some 2\<rparr>]\<rparr> \<and>
   runningTotal exGame ''A'' = Fin (aggregate exGame ''A'') \<and>
   aggregate exGame ''A'' = - 3"
  using getScoreboard_correct [OF ex_players, of "''A''"]
  by (simp add: ex_players ex_signedScores_A ex_aggregate_A ex_getScoreboard isInteger_def)

text \<open>
  Claim C1 as stated fails on scores that are not integers. The player of this game has
  the scores 0.1 in one played track and 0.2 and 0.3 in another: the board carries
  0.6000000000000001, where the sum over the tracks of the sums over the entries is
  0.6 in the arithmetic of doubles, and neither is the exact sum of the three doubles.
\<close>

theorem getScoreboard_fractions_counterexample:
  "players exFractions = Some [''A''] \<and>
   getScoreboard exFractions = Inr \<lparr>gameId = ''F'', board =
     [\<lparr>board_player = ''A'', board_score = Fin (5404319552844596 / 9007199254740992),
        position = Some 1\<rparr>]\<rparr> \<and>
   nestedTotal exFractions ''A'' = Fin (5404319552844595 / 9007199254740992) \<and>
   aggregate exFractions ''A'' = 21617278211378381 / 36028797018963968 \<and>
   Fin (5404319552844596 / 9007199254740992) \<noteq> nestedTotal exFractions ''A'' \<and>
   Fin (5404319552844596 / 9007199254740992) \<noteq> Fin (aggregate exFractions ''A'')"
  by (simp add: exFractions_getScoreboard exFractions_nestedTotal exFractions_aggregate)
    (simp add: exFractions_def)

section \<open>Properties of the handlers\<close>

subsection \<open>Lookup and save on the collection\<close>

lemma game_id_hydrate: "game_id (hydrate g) = game_id g"
  by (simp add: hydrate_def split: option.splits)

lemma hydrate_Some: "players g = Some ps \<Longrightarrow> hydrate g = g"
  by (simp add: hydrate_def)

lemma findById_game_id: "findById games i = Some g \<Longrightarrow> game_id g = i"
  by (auto simp: findById_def find_Some_iff game_id_hydrate)

lemma players_hydrate: "\<exists>ps. players (hydrate g) = Some ps"
  by (simp add: hydrate_def split: option.splits)

lemma findById_players: "findById games i = Some g \<Longrightarrow> \<exists>ps. players g = Some ps"
  using players_hydrate by (auto simp: findById_def)

lemma findById_store: "findById (store g games) (game_id g) = Some (hydrate g)"
  by (induction games) (simp_all add: findById_def)

lemma findById_store_other:
  "i \<noteq> game_id g \<Longrightarrow> findById (store g games) i = findById games i"
  by (induction games) (simp_all add: findById_def)




subsection \<open>Finding and updating a track; validation of the updated game\<close>

lemma track_id_pushScore: "track_id (pushScore u s t) = track_id t"
  by (simp add: pushScore_def)

lemma track_id_setPlayed: "track_id (setPlayed b t) = track_id t"
  by (simp add: setPlayed_def)

lemma findTrack_updateTrack:
  "(\<And>t. track_id (f t) = track_id t) \<Longrightarrow>
     findTrack (updateTrack i f ts) i = map_option f (findTrack ts i)"
  by (induction ts) (simp_all add: findTrack_def)

lemma validateTrack_pushScore:
  "validateTrack (pushScore u s t) = validateTrack t @ validateScore \<lparr>player = u, score = s\<rparr>"
  by (simp add: validateTrack_def pushScore_def)

lemma validateTrack_setPlayed: "validateTrack (setPlayed b t) = validateTrack t"
  by (simp add: validateTrack_def setPlayed_def)

lemma validate_updateTrack:
  "concat (map V ts) = [] \<Longrightarrow> findTrack ts i = Some t \<Longrightarrow>
     concat (map V (updateTrack i f ts)) = V (f t)"
  by (induction ts) (auto simp: findTrack_def split: if_splits)

lemma validateTrack_found:
  "concat (map V ts) = [] \<Longrightarrow> findTrack ts i = Some t \<Longrightarrow> V t = []"
  by (induction ts) (auto simp: findTrack_def split: if_splits)

lemma validateGame_tracks:
  "validateGame g = [] \<Longrightarrow> concat (map validateTrack (tracks g)) = []"
  by (simp add: validateGame_def)

lemma validateGame_update_tracks:
  "validateGame g = [] \<Longrightarrow> validateGame (g\<lparr>tracks := ts\<rparr>) = concat (map validateTrack ts)"
  by (simp add: validateGame_def split: if_splits)

lemma validateScore_bounds:
  "validateScore \<lparr>player = u, score = s\<rparr> =
     (if 0 \<le> s \<and> s \<le> 10 then [] else [''Game track score must be between 0 and 10''])"
  by (simp add: validateScore_def)

lemma validateGame_pushScore:
  assumes "validateGame g = []" and "findTrack (tracks g) j = Some t"
  shows "validateGame (g\<lparr>tracks := updateTrack j (pushScore u s) (tracks g)\<rparr>) =
     (if 0 \<le> s \<and> s \<le> 10 then [] else [''Game track score must be between 0 and 10''])"
proof -
  have "validateTrack t = []"
    using assms validateGame_tracks validateTrack_found by blast
  then show ?thesis
    using assms
    by (simp only: validateGame_update_tracks validate_updateTrack [OF validateGame_tracks]
        validateTrack_pushScore validateScore_bounds append_Nil)
qed

lemma validateGame_setPlayed:
  assumes "validateGame g = []" and "findTrack (tracks g) j = Some t"
  shows "validateGame (g\<lparr>tracks := updateTrack j (setPlayed b) (tracks g)\<rparr>) = []"
proof -
  have "validateTrack t = []"
    using assms validateGame_tracks validateTrack_found by blast
  then show ?thesis
    using assms
    by (simp only: validateGame_update_tracks validate_updateTrack [OF validateGame_tracks]
        validateTrack_setPlayed)
qed

subsection \<open>The concrete collection\<close>

lemma ex_findById: "findById [exGame] ''G'' = Some exGame"
  by (simp add: findById_def hydrate_def exGame_def)

lemma ex_validateGame: "validateGame exGame = []"
  by (simp add: validateGame_def validateTrack_def validateScore_def validatePlayers_def
      playersValidator_def artistsValidator_def nameRequired_def exGame_def exTrack_def)

lemma ex_findTrack: "findTrack (tracks exGame) ''t1'' = Some exTrack"
  by (simp add: findTrack_def exGame_def exTrack_def)

lemma ex_findTrack_none: "findTrack (tracks exGame) ''t9'' = None"
  by (simp add: findTrack_def exGame_def exTrack_def)

lemma ex_store: "store (exGame\<lparr>tracks := ts\<rparr>) [exGame] = [exGame\<lparr>tracks := ts\<rparr>]"
  by (simp add: exGame_def)

lemma ex_updateTrack: "updateTrack ''t1'' f (tracks exGame) = [f exTrack]"
  by (simp add: exGame_def exTrack_def)

subsection \<open>A request to add a score without a score\<close>

text \<open>
  Claim C8. A request to add a score whose body has no score (\<^verbatim>\<open>null\<close> or \<^verbatim>\<open>undefined\<close>)
  is answered with 400 and the error \<^verbatim>\<open>invalid_request\<close>, whatever the collection, the
  game and the track are: the game is not looked up and the collection is unchanged.
\<close>

theorem addScore_missing_score:
  "addScoreHandler schema games authUser None reqGameId reqTrackId =
     (Response 400 (FormatErrors [(''invalid_request'', ''Score is required'')]), games)"
  by (simp add: addScoreHandler_def)

subsection \<open>The bounds of a score\<close>

text \<open>
  Claim C5. For a request to add the score \<open>s\<close>, any number of a JSON body, to a track
  of a stored, valid game, the
  save succeeds (200, the game stored with the score appended) if and only if
  \<open>0 \<le> s \<le> 10\<close>; a score below 0 or above 10 makes the save fail with the validation
  error, answered with 400, and the collection is unchanged. The bounds 0 and 10 are
  accepted.
\<close>

theorem addScore_score_bounds:
  assumes "findById games reqGameId = Some g"
    and "validateGame g = []"
    and "findTrack (tracks g) reqTrackId = Some t"
  shows "addScoreHandler validateGame games authUser (Some s) reqGameId reqTrackId =
     (if 0 \<le> s \<and> s \<le> 10
      then (Response 200 (IdBody reqGameId),
            store (g\<lparr>tracks := updateTrack reqTrackId (pushScore authUser s) (tracks g)\<rparr>) games)
      else (Response 400 (FormatValidationErrors [''Game track score must be between 0 and 10'']),
            games))"
proof -
  have i: "game_id g = reqGameId"
    using assms(1) by (rule findById_game_id)
  show ?thesis
    using assms i
    by (simp add: addScoreHandler_def save_def catchBlock_def
        validateGame_pushScore [OF assms(2) assms(3)])
qed

text \<open>
  The hypotheses of C5 hold in the concrete collection: the scores 10 and 0.5 are stored,
  the score 10.000000000000002, the double next above 10, is refused.
\<close>

theorem addScore_score_bounds_witness:
  "findById [exGame] ''G'' = Some exGame \<and> validateGame exGame = [] \<and>
   findTrack (tracks exGame) ''t1'' = Some exTrack \<and>
   addScoreHandler validateGame [exGame] ''B'' (Some 10) ''G'' ''t1'' =
     (Response 200 (IdBody ''G''), [exGame\<lparr>tracks := [pushScore ''B'' 10 exTrack]\<rparr>]) \<and>
   addScoreHandler validateGame [exGame] ''B'' (Some (1 / 2)) ''G'' ''t1'' =
     (Response 200 (IdBody ''G''), [exGame\<lparr>tracks := [pushScore ''B'' (1 / 2) exTrack]\<rparr>]) \<and>
   addScoreHandler validateGame [exGame] ''B'' (Some (5629499534213121 / 562949953421312)) ''G'' ''t1'' =
     (Response 400 (FormatValidationErrors [''Game track score must be between 0 and 10'']),
      [exGame])"
  using addScore_score_bounds [OF ex_findById ex_validateGame ex_findTrack, of "''B''" 10]
    addScore_score_bounds [OF ex_findById ex_validateGame ex_findTrack, of "''B''" "1 / 2"]
    addScore_score_bounds [OF ex_findById ex_validateGame ex_findTrack, of "''B''"
      "5629499534213121 / 562949953421312"]
  by (simp add: ex_findById ex_validateGame ex_findTrack ex_store ex_updateTrack)

subsection \<open>A score of zero\<close>

text \<open>
  Claim C10. A request to add the score 0 is never answered by the required-score
  check (400 \<^verbatim>\<open>invalid_request\<close>); on a track of a stored, valid game it is answered
  with 200 and the entry \<open>(player, 0)\<close> is appended to the scores of the track.
\<close>

theorem addScore_zero_accepted:
  "fst (addScoreHandler schema games authUser (Some 0) reqGameId reqTrackId) \<noteq>
     Response 400 (FormatErrors [(''invalid_request'', ''Score is required'')]) \<and>
   (findById games reqGameId = Some g \<and> validateGame g = [] \<and>
    findTrack (tracks g) reqTrackId = Some t \<longrightarrow>
      (\<exists>games' g'. addScoreHandler validateGame games authUser (Some 0) reqGameId reqTrackId =
           (Response 200 (IdBody reqGameId), games') \<and>
         findById games' reqGameId = Some g' \<and>
         findTrack (tracks g') reqTrackId =
           Some (t\<lparr>scores := scores t @ [\<lparr>player = authUser, score = 0\<rparr>]\<rparr>)))"
proof
  show "fst (addScoreHandler schema games authUser (Some 0) reqGameId reqTrackId) \<noteq>
     Response 400 (FormatErrors [(''invalid_request'', ''Score is required'')])"
    by (simp add: addScoreHandler_def notFound_def catchBlock_def save_def Let_def
        split: option.splits exn.splits)
next
  show "findById games reqGameId = Some g \<and> validateGame g = [] \<and>
    findTrack (tracks g) reqTrackId = Some t \<longrightarrow>
      (\<exists>games' g'. addScoreHandler validateGame games authUser (Some 0) reqGameId reqTrackId =
           (Response 200 (IdBody reqGameId), games') \<and>
         findById games' reqGameId = Some g' \<and>
         findTrack (tracks g') reqTrackId =
           Some (t\<lparr>scores := scores t @ [\<lparr>player = authUser, score = 0\<rparr>]\<rparr>))"
  proof
    assume h: "findById games reqGameId = Some g \<and> validateGame g = [] \<and>
      findTrack (tracks g) reqTrackId = Some t"
    let ?g' = "g\<lparr>tracks := updateTrack reqTrackId (pushScore authUser 0) (tracks g)\<rparr>"
    from h have h1: "findById games reqGameId = Some g" and h2: "validateGame g = []"
      and h3: "findTrack (tracks g) reqTrackId = Some t"
      by simp_all
    have i: "game_id g = reqGameId"
      using h1 by (rule findById_game_id)
    have v: "validateGame ?g' = []"
      by (simp add: validateGame_pushScore [OF h2 h3])
    have r: "addScoreHandler validateGame games authUser (Some 0) reqGameId reqTrackId =
        (Response 200 (IdBody reqGameId), store ?g' games)"
      using h i v by (simp add: addScoreHandler_def save_def)
    obtain ps where ps: "players g = Some ps"
      using findById_players [OF h1] by blast
    have "findById (store ?g' games) (game_id ?g') = Some (hydrate ?g')"
      by (rule findById_store)
    then have f: "findById (store ?g' games) reqGameId = Some ?g'"
      using i ps by (simp add: hydrate_def)
    have t: "findTrack (tracks ?g') reqTrackId =
        Some (t\<lparr>scores := scores t @ [\<lparr>player = authUser, score = 0\<rparr>]\<rparr>)"
      using h by (simp add: findTrack_updateTrack track_id_pushScore) (simp add: pushScore_def)
    from r f t show "\<exists>games' g'. addScoreHandler validateGame games authUser (Some 0) reqGameId reqTrackId =
           (Response 200 (IdBody reqGameId), games') \<and>
         findById games' reqGameId = Some g' \<and>
         findTrack (tracks g') reqTrackId =
           Some (t\<lparr>scores := scores t @ [\<lparr>player = authUser, score = 0\<rparr>]\<rparr>)"
      by blast
  qed
qed

text \<open>
  The hypotheses of C10 hold in the concrete collection.
\<close>

theorem addScore_zero_accepted_witness:
  "findById [exGame] ''G'' = Some exGame \<and> validateGame exGame = [] \<and>
   findTrack (tracks exGame) ''t1'' = Some exTrack \<and>
   (\<exists>games' g'. addScoreHandler validateGame [exGame] ''A'' (Some 0) ''G'' ''t1'' =
        (Response 200 (IdBody ''G''), games') \<and>
      findById games' ''G'' = Some g' \<and>
      findTrack (tracks g') ''t1'' =
        Some (exTrack\<lparr>scores := scores exTrack @ [\<lparr>player = ''A'', score = 0\<rparr>]\<rparr>))"
  using addScore_zero_accepted [of validateGame "[exGame]" "''A''" "''G''" "''t1''" exGame exTrack]
  by (simp add: ex_findById ex_validateGame ex_findTrack)

subsection \<open>A track that the game does not have\<close>

text \<open>
  Claim C7, amended. For a request to add a score that carries a score, and for a
  request to set the played flag, whose game exists while no track of the game has the
  track identifier, the answer is the generic 500 response (not 404, and not the 400 of
  a validation error), and the collection is unchanged.
\<close>

theorem missing_track_server_error:
  assumes "findById games reqGameId = Some g"
    and "findTrack (tracks g) reqTrackId = None"
  shows "addScoreHandler schema games authUser (Some s) reqGameId reqTrackId =
       (Response 500 FormatServerError, games) \<and>
     playedHandler schema games bodyPlayed reqGameId reqTrackId =
       (Response 500 FormatServerError, games)"
  using assms by (simp add: addScoreHandler_def playedHandler_def catchBlock_def)

text \<open>
  The hypotheses of the amended C7 hold in the concrete collection, for a track
  identifier that the game does not have.
\<close>

theorem missing_track_server_error_witness:
  "findById [exGame] ''G'' = Some exGame \<and> findTrack (tracks exGame) ''t9'' = None \<and>
   addScoreHandler validateGame [exGame] ''B'' (Some 7) ''G'' ''t9'' =
     (Response 500 FormatServerError, [exGame]) \<and>
   playedHandler validateGame [exGame] (Some True) ''G'' ''t9'' =
     (Response 500 FormatServerError, [exGame])"
  using missing_track_server_error [OF ex_findById ex_findTrack_none]
  by (simp add: ex_findById ex_findTrack_none)

text \<open>
  Claim C7 as stated fails for a request to add a score that has no score: the game
  exists, the track does not, and the answer is the 400 of the required-score check, not
  500.
\<close>

theorem missing_track_missing_score_counterexample:
  "findById [exGame] ''G'' = Some exGame \<and> findTrack (tracks exGame) ''t9'' = None \<and>
   addScoreHandler validateGame [exGame] ''B'' None ''G'' ''t9'' =
     (Response 400 (FormatErrors [(''invalid_request'', ''Score is required'')]), [exGame]) \<and>
   status (fst (addScoreHandler validateGame [exGame] ''B'' None ''G'' ''t9'')) \<noteq> 500"
  by (simp add: ex_findById ex_findTrack_none addScoreHandler_def)

subsection \<open>Marking a track as played\<close>

text \<open>
  Claim C2, at the input where the code departs from it: the track is not played, the
  body carries the explicit value \<^verbatim>\<open>played: false\<close>, and the handler stores the track
  as played.
\<close>

theorem played_explicit_false_on_unplayed:
  "findById [exGame] ''G'' = Some exGame \<and> findTrack (tracks exGame) ''t1'' = Some exTrack \<and>
   played exTrack = False \<and>
   playedHandler validateGame [exGame] (Some False) ''G'' ''t1'' =
     (Response 200 (IdBody ''G''), [exGame\<lparr>tracks := [exTrack\<lparr>played := True\<rparr>]\<rparr>])"
proof -
  have v: "validateGame (exGame\<lparr>tracks := [setPlayed (Some False) exTrack]\<rparr>) = []"
    using validateGame_setPlayed [OF ex_validateGame ex_findTrack, of "Some False"]
    by (simp add: ex_updateTrack)
  have p: "setPlayed (Some False) exTrack = exTrack\<lparr>played := True\<rparr>"
    by (simp add: setPlayed_def playedOr_def exTrack_def)
  have "playedHandler validateGame [exGame] (Some False) ''G'' ''t1'' =
     (Response 200 (IdBody ''G''), [exGame\<lparr>tracks := [setPlayed (Some False) exTrack]\<rparr>])"
    using v by (simp add: playedHandler_def ex_findById ex_findTrack ex_updateTrack save_def
        ex_store) (simp add: exGame_def)
  then show ?thesis
    by (simp add: ex_findById ex_findTrack p) (simp add: exTrack_def)
qed

subsection \<open>Joining a game twice\<close>

lemma filter_eq_replicate: "filter (\<lambda>q. q = p) ps = replicate (count_list ps p) p"
  by (induction ps) simp_all

lemma mset_eq_replicate:
  assumes "mset zs = mset (replicate n v)"
  shows "zs = replicate n v"
proof (rule replicate_eqI)
  show "length zs = n"
    using assms by (metis length_replicate size_mset)
  fix y
  assume "y \<in> set zs"
  then have "y \<in> set (replicate n v)"
    using assms by (metis set_mset_mset)
  then show "y = v"
    by simp
qed

lemma mset_entries_getScoreboard:
  assumes "players g = Some ps" and "getScoreboard g = Inr sb"
  shows "mset (map (\<lambda>e. (board_player e, board_score e)) (board sb)) =
     mset (map (\<lambda>p. (p, runningTotal g p)) ps)"
proof -
  let ?es = "map (\<lambda>p. \<lparr>board_player = p, board_score = runningTotal g p, position = None\<rparr>) ps"
  have b: "board sb = setPositions 0 (arraySort compareScores ?es)"
    using getScoreboard_Some [OF assms(1)] assms(2) by auto
  have "mset (map (\<lambda>e. (board_player e, board_score e)) (arraySort compareScores ?es)) =
        mset (map (\<lambda>e. (board_player e, board_score e)) ?es)"
    using mset_arraySort [of compareScores ?es] by (metis mset_map)
  also have "map (\<lambda>e. (board_player e, board_score e)) ?es = map (\<lambda>p. (p, runningTotal g p)) ps"
    by simp
  finally show ?thesis
    by (simp add: b map_entries_setPositions)
qed

lemma scores_of_player:
  assumes "players g = Some ps" and "getScoreboard g = Inr sb"
  shows "map board_score (filter (\<lambda>e. board_player e = p) (board sb)) =
     replicate (count_list ps p) (runningTotal g p)"
proof -
  let ?pair = "\<lambda>e. (board_player e, board_score e)"
  let ?P = "\<lambda>x :: objectId \<times> number. fst x = p"
  let ?ys = "map (\<lambda>q. (q, runningTotal g q)) ps"
  have m: "mset (map ?pair (board sb)) = mset ?ys"
    using assms by (rule mset_entries_getScoreboard)
  have "mset (filter ?P (map ?pair (board sb))) = mset (filter ?P ?ys)"
    using m by (metis mset_filter)
  also have "filter ?P ?ys = replicate (count_list ps p) (p, runningTotal g p)"
    by (simp add: filter_map comp_def filter_eq_replicate)
  finally have "filter ?P (map ?pair (board sb)) = replicate (count_list ps p) (p, runningTotal g p)"
    by (rule mset_eq_replicate)
  then have "map snd (filter ?P (map ?pair (board sb))) =
      replicate (count_list ps p) (runningTotal g p)"
    by simp
  then show ?thesis
    by (simp add: filter_map comp_def)
qed

lemma runningTotal_players_update: "runningTotal (g\<lparr>players := ps\<rparr>) p = runningTotal g p"
  by (simp add: runningTotal_def signedScoresOf_def)

lemma validateGame_join:
  "validateGame g = [] \<Longrightarrow> validateGame (g\<lparr>players := Some (ps @ [p])\<rparr>) = []"
  by (simp add: validateGame_def validatePlayers_def playersValidator_def)

text \<open>
  Claim C6. Joining is not idempotent: when a player who is already among the players of
  a stored, valid game joins again, the request succeeds and the stored game has the
  player appended once more; the scoreboard of the stored game then has one more entry
  for the player than before (at least two), each with the full aggregate of the
  player's scores, the score of the player's entries before the request.
\<close>

theorem rejoin_double_counts:
  assumes "findById games reqGameId = Some g"
    and "validateGame g = []"
    and "players g = Some ps"
    and "p \<in> set ps"
  shows "\<exists>games' g' sb sb'.
     getScoreboard g = Inr sb \<and>
     map board_score (filter (\<lambda>e. board_player e = p) (board sb)) =
       replicate (count_list ps p) (runningTotal g p) \<and>
     joinHandler validateGame games p reqGameId = (Response 200 (IdBody reqGameId), games') \<and>
     findById games' reqGameId = Some g' \<and>
     players g' = Some (ps @ [p]) \<and>
     scoreboardHandler games' reqGameId = Response 200 (ScoreboardBody sb') \<and>
     getScoreboard g' = Inr sb' \<and>
     map board_score (filter (\<lambda>e. board_player e = p) (board sb')) =
       replicate (count_list ps p + 1) (runningTotal g p) \<and>
     2 \<le> count_list ps p + 1"
proof -
  let ?g' = "g\<lparr>players := Some (ps @ [p])\<rparr>"
  obtain sb where sb: "getScoreboard g = Inr sb"
    using getScoreboard_Some [OF assms(3)] by blast
  have ps': "players ?g' = Some (ps @ [p])"
    by simp
  obtain sb' where sb': "getScoreboard ?g' = Inr sb'"
    using getScoreboard_Some [OF ps'] by blast
  have i: "game_id g = reqGameId"
    using assms(1) by (rule findById_game_id)
  have r: "joinHandler validateGame games p reqGameId =
      (Response 200 (IdBody reqGameId), store ?g' games)"
    using assms(1) assms(3) i
    by (simp add: joinHandler_def save_def validateGame_join [OF assms(2)])
  have "findById (store ?g' games) (game_id ?g') = Some (hydrate ?g')"
    by (rule findById_store)
  then have f: "findById (store ?g' games) reqGameId = Some ?g'"
    using i by (simp add: hydrate_def)
  have h: "scoreboardHandler (store ?g' games) reqGameId = Response 200 (ScoreboardBody sb')"
    using f sb' by (simp add: scoreboardHandler_def)
  have b: "map board_score (filter (\<lambda>e. board_player e = p) (board sb)) =
       replicate (count_list ps p) (runningTotal g p)"
    using assms(3) sb by (rule scores_of_player)
  have b': "map board_score (filter (\<lambda>e. board_player e = p) (board sb')) =
       replicate (count_list ps p + 1) (runningTotal g p)"
    using scores_of_player [OF ps' sb', of p] by (simp add: runningTotal_players_update)
  have "count_list ps p \<noteq> 0"
    using assms(4) by (simp add: count_list_0_iff)
  then have c: "2 \<le> count_list ps p + 1"
    by simp
  from sb b r f h sb' b' c show ?thesis
    by (intro exI [of _ "store ?g' games"] exI [of _ ?g'] exI [of _ sb] exI [of _ sb']) simp
qed

lemma ex_player: "''A'' \<in> set [''A'', ''B'']"
  by simp

lemma ex_runningTotal_A: "runningTotal exGame ''A'' = Fin (- 3)"
  by code_simp

text \<open>
  The hypotheses of C6 hold in the concrete collection for player A, who then has two
  entries with the aggregate -3.
\<close>

theorem rejoin_double_counts_witness:
  "findById [exGame] ''G'' = Some exGame \<and> validateGame exGame = [] \<and>
   players exGame = Some [''A'', ''B''] \<and> ''A'' \<in> set [''A'', ''B''] \<and>
   (\<exists>games' g' sb'.
     joinHandler validateGame [exGame] ''A'' ''G'' = (Response 200 (IdBody ''G''), games') \<and>
     findById games' ''G'' = Some g' \<and>
     players g' = Some [''A'', ''B'', ''A''] \<and>
     scoreboardHandler games' ''G'' = Response 200 (ScoreboardBody sb') \<and>
     map board_score (filter (\<lambda>e. board_player e = ''A'') (board sb')) = [Fin (- 3), Fin (- 3)])"
proof -
  from rejoin_double_counts [OF ex_findById ex_validateGame ex_players ex_player]
  obtain games' g' sb' where
    "joinHandler validateGame [exGame] ''A'' ''G'' = (Response 200 (IdBody ''G''), games')"
    and "findById games' ''G'' = Some g'"
    and "players g' = Some ([''A'', ''B''] @ [''A''])"
    and "scoreboardHandler games' ''G'' = Response 200 (ScoreboardBody sb')"
    and "map board_score (filter (\<lambda>e. board_player e = ''A'') (board sb')) =
       replicate (count_list [''A'', ''B''] ''A'' + 1) (runningTotal exGame ''A'')"
    by blast
  then have "joinHandler validateGame [exGame] ''A'' ''G'' = (Response 200 (IdBody ''G''), games') \<and>
     findById games' ''G'' = Some g' \<and>
     players g' = Some [''A'', ''B'', ''A''] \<and>
     scoreboardHandler games' ''G'' = Response 200 (ScoreboardBody sb') \<and>
     map board_score (filter (\<lambda>e. board_player e = ''A'') (board sb')) = [Fin (- 3), Fin (- 3)]"
    by (simp add: ex_runningTotal_A numeral_2_eq_2)
  then have "\<exists>games' g' sb'.
     joinHandler validateGame [exGame] ''A'' ''G'' = (Response 200 (IdBody ''G''), games') \<and>
     findById games' ''G'' = Some g' \<and>
     players g' = Some [''A'', ''B'', ''A''] \<and>
     scoreboardHandler games' ''G'' = Response 200 (ScoreboardBody sb') \<and>
     map board_score (filter (\<lambda>e. board_player e = ''A'') (board sb')) = [Fin (- 3), Fin (- 3)]"
    by (intro exI)
  then show ?thesis
    using ex_findById ex_validateGame ex_players by simp
qed

subsection \<open>The player invariant\<close>

















subsection \<open>The schema that wants ten scores\<close>

lemma updateTrack_member:
  "findTrack ts i = Some t \<Longrightarrow> f t \<in> set (updateTrack i f ts)"
  by (induction ts) (auto simp: findTrack_def split: if_splits)

lemma validateTrackVariant_few_scores:
  "length (scores t) < 10 \<Longrightarrow> ''Game track scores must be >= 10'' \<in> set (validateTrackVariant t)"
  by (simp add: validateTrackVariant_def scoresValidator_def)

lemma validateGameVariant_few_scores:
  "t \<in> set (tracks g) \<Longrightarrow> length (scores t) < 10 \<Longrightarrow>
     ''Game track scores must be >= 10'' \<in> set (validateGameVariant g)"
  using validateTrackVariant_few_scores [of t] by (auto simp: validateGameVariant_def)

lemma save_variant_few_scores:
  assumes "t \<in> set (tracks g)" and "length (scores t) < 10"
  shows "save validateGameVariant games g = Inl (ValidationError (validateGameVariant g)) \<and>
     ''Game track scores must be >= 10'' \<in> set (validateGameVariant g)"
proof -
  have m: "''Game track scores must be >= 10'' \<in> set (validateGameVariant g)"
    using assms by (rule validateGameVariant_few_scores)
  then have "validateGameVariant g \<noteq> []"
    by auto
  with m show ?thesis
    by (simp add: save_def)
qed

text \<open>
  Claim C3. Under the track schema of \<^verbatim>\<open>src/models/game-model.ts\<close>, a track is valid only
  with at least 10 scores: the save of a game that has a track with fewer than 10
  scores fails with the validation error; in particular a request to add one score to a
  track with fewer than 9 scores is answered with 400 and nothing is stored.
\<close>

theorem variant_requires_ten_scores:
  "(length (scores t) < 10 \<longrightarrow>
      ''Game track scores must be >= 10'' \<in> set (validateTrackVariant t)) \<and>
   (t \<in> set (tracks g) \<and> length (scores t) < 10 \<longrightarrow>
      (\<exists>errs. save validateGameVariant games g = Inl (ValidationError errs) \<and>
         ''Game track scores must be >= 10'' \<in> set errs)) \<and>
   (findById games reqGameId = Some g' \<and> findTrack (tracks g') reqTrackId = Some t' \<and>
    length (scores t') < 9 \<longrightarrow>
      (\<exists>errs. addScoreHandler validateGameVariant games authUser (Some s) reqGameId reqTrackId =
           (Response 400 (FormatValidationErrors errs), games) \<and>
         ''Game track scores must be >= 10'' \<in> set errs))"
proof (intro conjI impI)
  assume "length (scores t) < 10"
  then show "''Game track scores must be >= 10'' \<in> set (validateTrackVariant t)"
    by (rule validateTrackVariant_few_scores)
next
  assume "t \<in> set (tracks g) \<and> length (scores t) < 10"
  then show "\<exists>errs. save validateGameVariant games g = Inl (ValidationError errs) \<and>
         ''Game track scores must be >= 10'' \<in> set errs"
    using save_variant_few_scores [of t g games] by blast
next
  assume h: "findById games reqGameId = Some g' \<and> findTrack (tracks g') reqTrackId = Some t' \<and>
    length (scores t') < 9"
  let ?ts = "updateTrack reqTrackId (pushScore authUser s) (tracks g')"
  let ?g = "g'\<lparr>tracks := ?ts\<rparr>"
  from h have m: "pushScore authUser s t' \<in> set (tracks ?g)"
    by (simp add: updateTrack_member)
  from h have l: "length (scores (pushScore authUser s t')) < 10"
    by (simp add: pushScore_def)
  have "save validateGameVariant games ?g = Inl (ValidationError (validateGameVariant ?g)) \<and>
     ''Game track scores must be >= 10'' \<in> set (validateGameVariant ?g)"
    using m l by (rule save_variant_few_scores)
  with h have "addScoreHandler validateGameVariant games authUser (Some s) reqGameId reqTrackId =
           (Response 400 (FormatValidationErrors (validateGameVariant ?g)), games) \<and>
         ''Game track scores must be >= 10'' \<in> set (validateGameVariant ?g)"
    by (simp add: addScoreHandler_def catchBlock_def)
  then show "\<exists>errs. addScoreHandler validateGameVariant games authUser (Some s) reqGameId reqTrackId =
           (Response 400 (FormatValidationErrors errs), games) \<and>
         ''Game track scores must be >= 10'' \<in> set errs"
    by blast
qed

lemma ex_track_member: "exTrack \<in> set (tracks exGame)"
  by (simp add: exGame_def)

lemma ex_few_scores: "length (scores exTrack) < 9"
  by (simp add: exTrack_def)

text \<open>
  The hypotheses of C3 hold in the concrete collection, whose track has two scores.
\<close>

theorem variant_requires_ten_scores_witness:
  "length (scores exTrack) < 10 \<and> exTrack \<in> set (tracks exGame) \<and>
   findById [exGame] ''G'' = Some exGame \<and> findTrack (tracks exGame) ''t1'' = Some exTrack \<and>
   length (scores exTrack) < 9 \<and>
   ''Game track scores must be >= 10'' \<in> set (validateTrackVariant exTrack) \<and>
   (\<exists>errs. save validateGameVariant [exGame] exGame = Inl (ValidationError errs) \<and>
      ''Game track scores must be >= 10'' \<in> set errs) \<and>
   (\<exists>errs. addScoreHandler validateGameVariant [exGame] ''A'' (Some 5) ''G'' ''t1'' =
        (Response 400 (FormatValidationErrors errs), [exGame]) \<and>
      ''Game track scores must be >= 10'' \<in> set errs)"
  using variant_requires_ten_scores [of exTrack exGame "[exGame]" "''G''" exGame "''t1''" exTrack "''A''" 5]
    ex_few_scores
  by (simp add: ex_track_member ex_findById ex_findTrack)

end
